theory Spec2Isabelle
  imports Main
begin

section \<open>Strings and paths of the Go library\<close>

text \<open>
  Go strings are byte sequences; they are modelled as \<open>string\<close>. The functions of this
  section are those of the packages \<open>strings\<close>, \<open>path\<close> and \<open>path/filepath\<close> (on a
  system whose separator is the slash) that the program calls.
\<close>

type_synonym bytes = string

definition HasPrefix :: "string \<Rightarrow> string \<Rightarrow> bool" where
  "HasPrefix s pre = (take (length pre) s = pre)"

definition HasSuffix :: "string \<Rightarrow> string \<Rightarrow> bool" where
  "HasSuffix s suf = (length suf \<le> length s \<and> drop (length s - length suf) s = suf)"

definition TrimSuffix :: "string \<Rightarrow> string \<Rightarrow> string" where
  "TrimSuffix s suf = (if HasSuffix s suf then take (length s - length suf) s else s)"

text \<open>\<open>strings.Split(s, sep)\<close> for a separator of one byte: never an empty slice.\<close>

fun Split :: "string \<Rightarrow> char \<Rightarrow> string list" where
  "Split [] sep = [[]]"
| "Split (c # cs) sep =
     (if c = sep then [] # Split cs sep
      else (case Split cs sep of [] \<Rightarrow> [[c]] | w # ws \<Rightarrow> (c # w) # ws))"

fun JoinStrings :: "string list \<Rightarrow> string \<Rightarrow> string" where
  "JoinStrings [] sep = []"
| "JoinStrings [a] sep = a"
| "JoinStrings (a # b # r) sep = a @ sep @ JoinStrings (b # r) sep"

text \<open>\<open>strings.TrimSpace\<close>, on the white space of ASCII.\<close>

definition isSpace :: "char \<Rightarrow> bool" where
  "isSpace c = (c = CHR '' '' \<or> c = CHR 0x09 \<or> c = CHR 0x0A \<or> c = CHR 0x0B
                \<or> c = CHR 0x0C \<or> c = CHR 0x0D)"

definition TrimSpace :: "string \<Rightarrow> string" where
  "TrimSpace s = rev (dropWhile isSpace (rev (dropWhile isSpace s)))"

definition lastElem :: "string \<Rightarrow> string" where
  "lastElem p = rev (takeWhile (\<lambda>c. c \<noteq> CHR ''/'') (rev p))"

definition Base :: "string \<Rightarrow> string" where
  "Base p =
     (if p = [] then ''.''
      else (let e = lastElem (rev (dropWhile (\<lambda>c. c = CHR ''/'') (rev p)))
            in if e = [] then ''/'' else e))"

definition Ext :: "string \<Rightarrow> string" where
  "Ext p =
     (let e = lastElem p
      in if CHR ''.'' \<in> set e
         then CHR ''.'' # rev (takeWhile (\<lambda>c. c \<noteq> CHR ''.'') (rev e))
         else [])"

text \<open>
  \<open>path.Clean\<close>: the loop over the input with its output buffer \<open>out\<close> and the index
  \<open>dotdot\<close> below which the output may not be cut back.
\<close>

fun backupW :: "nat \<Rightarrow> string \<Rightarrow> nat \<Rightarrow> nat" where
  "backupW dd out 0 = 0"
| "backupW dd out (Suc n) =
     (if Suc n > dd \<and> out ! Suc n \<noteq> CHR ''/'' then backupW dd out n else Suc n)"

definition backup :: "nat \<Rightarrow> string \<Rightarrow> string" where
  "backup dd out = take (backupW dd out (length out - 1)) out"

definition atElemEnd :: "string \<Rightarrow> bool" where
  "atElemEnd r = (case r of [] \<Rightarrow> True | d # _ \<Rightarrow> d = CHR ''/'')"

function cleanLoop :: "bool \<Rightarrow> nat \<Rightarrow> string \<Rightarrow> string \<Rightarrow> string" where
  "cleanLoop rooted dd out [] = out"
| "cleanLoop rooted dd out (c # r) =
     (if c = CHR ''/'' then cleanLoop rooted dd out r
      else if c = CHR ''.'' \<and> atElemEnd r then cleanLoop rooted dd out r
      else if c = CHR ''.'' \<and> r \<noteq> [] \<and> hd r = CHR ''.'' \<and> atElemEnd (tl r) then
        (if length out > dd then cleanLoop rooted dd (backup dd out) (tl r)
         else if \<not> rooted then
           (let out' = (if out \<noteq> [] then out @ ''/'' else out) @ ''..''
            in cleanLoop rooted (length out') out' (tl r))
         else cleanLoop rooted dd out (tl r))
      else
        (let out' = (if rooted \<and> length out \<noteq> 1 \<or> \<not> rooted \<and> out \<noteq> []
                     then out @ ''/'' else out)
         in cleanLoop rooted dd (out' @ c # takeWhile (\<lambda>x. x \<noteq> CHR ''/'') r)
              (dropWhile (\<lambda>x. x \<noteq> CHR ''/'') r)))"
  by pat_completeness auto
termination
  by (relation "measure (\<lambda>(rooted, dd, out, r). length r)")
     (auto simp: less_Suc_eq_le length_dropWhile_le intro: le_trans [OF diff_le_self])

definition Clean :: "string \<Rightarrow> string" where
  "Clean p =
     (if p = [] then ''.''
      else (let rooted = (hd p = CHR ''/'');
                out = (if rooted then cleanLoop True 1 ''/'' (tl p)
                       else cleanLoop False 0 [] p)
            in if out = [] then ''.'' else out))"

text \<open>\<open>path.Join\<close> of two elements, and \<open>filepath.Dir\<close>.\<close>

definition Join :: "string \<Rightarrow> string \<Rightarrow> string" where
  "Join a b =
     (if a = [] \<and> b = [] then []
      else if a = [] then Clean b
      else if b = [] then Clean a
      else Clean (a @ ''/'' @ b))"

definition Dir :: "string \<Rightarrow> string" where
  "Dir p = Clean (rev (dropWhile (\<lambda>c. c \<noteq> CHR ''/'') (rev p)))"

section \<open>Errors, files and buffered readers\<close>

datatype errno = ENOENT | EACCES | EISDIR | EIO

datatype error =
    EOF
  | ErrBufferFull
  | PathError string string errno
  | ExecError string
  | Errorf string

definition errnoText :: "errno \<Rightarrow> string" where
  "errnoText en = (case en of
       ENOENT \<Rightarrow> ''no such file or directory''
     | EACCES \<Rightarrow> ''permission denied''
     | EISDIR \<Rightarrow> ''is a directory''
     | EIO \<Rightarrow> ''input/output error'')"

text \<open>The text of an error, as \<open>%s\<close> formats it.\<close>

definition errText :: "error \<Rightarrow> string" where
  "errText e = (case e of
       EOF \<Rightarrow> ''EOF''
     | ErrBufferFull \<Rightarrow> ''bufio: buffer full''
     | PathError opn p en \<Rightarrow> opn @ '' '' @ p @ '': '' @ errnoText en
     | ExecError m \<Rightarrow> m
     | Errorf m \<Rightarrow> m)"

definition IsNotExist :: "error \<Rightarrow> bool" where
  "IsNotExist e = (case e of PathError opn p en \<Rightarrow> en = ENOENT | _ \<Rightarrow> False)"

text \<open>
  The file system is a map from paths to nodes. A \<open>Faulty\<close> node is a file whose reads
  fail with the given error (a device error, a permission that is missing).
\<close>

datatype node = File bytes | Directory | Faulty error

type_synonym filesys = "string \<Rightarrow> node option"

text \<open>
  A reader delivers the bytes \<open>pending\<close> and then the error \<open>final\<close>, which is
  \<open>EOF\<close> at the end of a file. It is the \<open>bufio.Reader\<close> of the program, with
  the buffer of \<open>bufSize\<close> bytes that \<open>bufio.NewReader\<close> gives it.
\<close>

record Reader =
  pending :: bytes
  final :: error

definition Open :: "filesys \<Rightarrow> string \<Rightarrow> error + Reader" where
  "Open fs p = (case fs p of
       None \<Rightarrow> Inl (PathError ''open'' p ENOENT)
     | Some (File b) \<Rightarrow> Inr \<lparr>pending = b, final = EOF\<rparr>
     | Some Directory \<Rightarrow> Inr \<lparr>pending = [], final = PathError ''read'' p EISDIR\<rparr>
     | Some (Faulty e) \<Rightarrow> Inr \<lparr>pending = [], final = e\<rparr>)"

definition ReadFile :: "filesys \<Rightarrow> string \<Rightarrow> error + bytes" where
  "ReadFile fs p = (case Open fs p of
       Inl e \<Rightarrow> Inl e
     | Inr r \<Rightarrow> if final r = EOF then Inr (pending r) else Inl (final r))"

definition bufSize :: nat where
  "bufSize = 4096"

definition ReadSlice :: "Reader \<Rightarrow> (bytes \<times> error option) \<times> Reader" where
  "ReadSlice r =
     (let bs = pending r; pre = takeWhile (\<lambda>c. c \<noteq> CHR 0x0A) bs
      in if length pre < length bs \<and> length pre < bufSize
         then ((pre @ [CHR 0x0A], None), r\<lparr>pending := drop (Suc (length pre)) bs\<rparr>)
         else if bufSize \<le> length bs
         then ((take bufSize bs, Some ErrBufferFull), r\<lparr>pending := drop bufSize bs\<rparr>)
         else ((bs, Some (final r)), r\<lparr>pending := []\<rparr>))"

definition ReadLine :: "Reader \<Rightarrow> (bytes \<times> bool \<times> error option) \<times> Reader" where
  "ReadLine r =
     (case ReadSlice r of ((line, err), r') \<Rightarrow>
        if err = Some ErrBufferFull then
          (if line \<noteq> [] \<and> last line = CHR 0x0D
           then ((butlast line, True, None), r'\<lparr>pending := CHR 0x0D # pending r'\<rparr>)
           else ((line, True, None), r'))
        else if line = [] then (([], False, err), r')
        else
          (let cut = (if last line = CHR 0x0A
                      then (if 1 < length line \<and> line ! (length line - 2) = CHR 0x0D
                            then 2 else 1)
                      else 0)
           in ((take (length line - cut) line, False, None), r')))"

section \<open>The checklist (checklist.go)\<close>

record FileEntry =
  path :: string
  hash :: string

record Checklist =
  files :: "FileEntry list"

datatype 'a outcome = Returns 'a | Panics | Exits nat

definition AddFile :: "Checklist \<Rightarrow> string \<Rightarrow> string \<Rightarrow> Checklist" where
  "AddFile c p h = c\<lparr>files := files c @ [\<lparr>path = p, hash = h\<rparr>]\<rparr>"

text \<open>
  The loop of \<open>ChecklistFromReader\<close>. Its only exit is \<open>return nil, err\<close>; \<open>readLoop\<close>
  gives the local checklist at that point together with the error, and
  \<open>ChecklistFromReader\<close> returns what the source returns: no checklist, and the error.
  A pair of a pointer and an error of which exactly one is nil is a sum: \<open>Inl\<close> the
  error, \<open>Inr\<close> the checklist. Indexing \<open>arr[1]\<close> panics when the line has no
  space.
\<close>

function readLoop :: "Checklist \<Rightarrow> Reader \<Rightarrow> (Checklist \<times> error) outcome" where
  "readLoop c r =
     (case ReadLine r of
        ((line, isPrefix, Some e), r') \<Rightarrow> Returns (c, e)
      | ((line, isPrefix, None), r') \<Rightarrow>
          (let arr = Split line (CHR '' '')
           in if length arr < 2 then Panics
              else readLoop (AddFile c (arr ! 1) (arr ! 0)) r'))"
  by pat_completeness auto
termination
proof (relation "measure (\<lambda>(c, r). length (pending r))", goal_cases)
  case 1
  show ?case by simp
next
  case (2 c r x1 r' line x2 isPrefix err arr)
  have ne: "line \<noteq> []"
    using 2 by auto
  have big: "0 < bufSize" "1 < bufSize"
    by (simp_all add: bufSize_def)
  have bl: "Suc 0 < length xs" if "butlast xs \<noteq> []" for xs :: string
    using that by (cases xs rule: rev_cases) auto
  from 2 ne big show ?case
    by (auto simp: ReadLine_def ReadSlice_def Let_def dest: bl split: if_splits prod.splits)
qed

definition ChecklistFromReader :: "Reader \<Rightarrow> (error + Checklist) outcome" where
  "ChecklistFromReader r =
     (case readLoop \<lparr>files = []\<rparr> r of
        Returns (c, e) \<Rightarrow> Returns (Inl e)
      | Panics \<Rightarrow> Panics
      | Exits n \<Rightarrow> Exits n)"

text \<open>
  What the program gets from outside: the digest (\<open>md5hex b\<close> is the hexadecimal MD5 of
  \<open>b\<close>), the directory walk (\<open>walk fs root\<close> is the sequence of calls that
  \<open>filepath.Walk\<close> makes to a callback that returns nil each time: the path, its file
  information and the error of reaching it), the commands it runs (\<open>exec\<close> gives the
  file system after the command, its standard output and its error), the working
  directory and \<open>filepath.Abs\<close>.
\<close>

record FileInfo =
  IsDir :: bool

type_synonym visit = "string \<times> FileInfo \<times> error option"

record sys =
  md5hex :: "bytes \<Rightarrow> string"
  walk :: "filesys \<Rightarrow> string \<Rightarrow> visit list"
  exec :: "string \<Rightarrow> string list \<Rightarrow> filesys \<Rightarrow> filesys \<times> bytes \<times> error option"
  getwd :: "error + string"
  absPath :: "string \<Rightarrow> error + string"

text \<open>\<open>filepath.Walk\<close>: the callback, which updates a state, stops the walk by an error.\<close>

fun Walk :: "visit list \<Rightarrow> (string \<Rightarrow> FileInfo \<Rightarrow> error option \<Rightarrow> 's \<Rightarrow> 's \<times> error option)
               \<Rightarrow> 's \<Rightarrow> 's \<times> error option" where
  "Walk [] fn s = (s, None)"
| "Walk ((p, info, err) # vs) fn s =
     (case fn p info err s of
        (s', Some e) \<Rightarrow> (s', Some e)
      | (s', None) \<Rightarrow> Walk vs fn s')"

definition Collect_path :: "sys \<Rightarrow> filesys \<Rightarrow> Checklist \<Rightarrow> string \<Rightarrow> Checklist \<times> error option" where
  "Collect_path S fs c p =
     (case ReadFile fs p of
        Inl e \<Rightarrow> (c, Some e)
      | Inr content \<Rightarrow> (AddFile c p (md5hex S content), None))"

definition ChecklistFromDir ::
  "sys \<Rightarrow> filesys \<Rightarrow> string \<Rightarrow> (string \<Rightarrow> FileInfo \<Rightarrow> bool) \<Rightarrow> error + Checklist" where
  "ChecklistFromDir S fs dir flt =
     (case Walk (walk S fs dir)
             (\<lambda>p info err c.
                case err of
                  Some e \<Rightarrow> (c, Some e)
                | None \<Rightarrow> if \<not> flt p info then (c, None) else Collect_path S fs c p)
             \<lparr>files = []\<rparr> of
        (c, Some e) \<Rightarrow> Inl e
      | (c, None) \<Rightarrow> Inr c)"

text \<open>
  \<open>Diff\<close> has the checklist as its receiver: the loop carries it along with the output,
  and \<open>Diff\<close> gives the receiver after the call, the changed paths and the error.
\<close>

fun DiffLoop :: "sys \<Rightarrow> filesys \<Rightarrow> FileEntry list \<Rightarrow> Checklist \<times> string list
                  \<Rightarrow> Checklist \<times> string list \<times> error option" where
  "DiffLoop S fs [] (c, out) = (c, out, None)"
| "DiffLoop S fs (file # rest) (c, out) =
     (case ReadFile fs (path file) of
        Inl e \<Rightarrow> (c, [], Some e)
      | Inr content \<Rightarrow>
          DiffLoop S fs rest
            (c, if md5hex S content \<noteq> hash file then out @ [path file] else out))"

definition Diff :: "sys \<Rightarrow> filesys \<Rightarrow> Checklist \<Rightarrow> Checklist \<times> string list \<times> error option" where
  "Diff S fs c = DiffLoop S fs (files c) (c, [])"

text \<open>
  \<open>Write\<close> writes to any \<open>io.Writer\<close>: \<open>ws\<close> is its \<open>WriteString\<close>. The record is the
  hash, a space and the path, with nothing after the path.
\<close>

fun WriteLoop :: "('w \<Rightarrow> string \<Rightarrow> 'w \<times> error option) \<Rightarrow> FileEntry list \<Rightarrow> 'w
                   \<Rightarrow> 'w \<times> error option" where
  "WriteLoop ws [] w = (w, None)"
| "WriteLoop ws (file # rest) w =
     (case ws w (hash file @ '' '' @ path file) of
        (w', Some e) \<Rightarrow> (w', Some e)
      | (w', None) \<Rightarrow> WriteLoop ws rest w')"

definition Write :: "('w \<Rightarrow> string \<Rightarrow> 'w \<times> error option) \<Rightarrow> Checklist \<Rightarrow> 'w \<Rightarrow> 'w \<times> error option" where
  "Write ws c w = WriteLoop ws (files c) w"

text \<open>A buffer in memory as the writer: every write succeeds and appends.\<close>

definition bufferWriteString :: "bytes \<Rightarrow> string \<Rightarrow> bytes \<times> error option" where
  "bufferWriteString b s = (b @ s, None)"

text \<open>The predicates in which the properties of \<open>Diff\<close> are stated.\<close>

definition readable :: "filesys \<Rightarrow> string \<Rightarrow> bool" where
  "readable fs p = (case ReadFile fs p of Inl e \<Rightarrow> False | Inr b \<Rightarrow> True)"

definition changed :: "sys \<Rightarrow> filesys \<Rightarrow> FileEntry \<Rightarrow> bool" where
  "changed S fs f = (case ReadFile fs (path f) of Inl e \<Rightarrow> False | Inr b \<Rightarrow> md5hex S b \<noteq> hash f)"

section \<open>The journal, sequential revision\<close>

text \<open>
  The state of the process and its surroundings: the file system and what was printed
  on the standard output and the standard error.
\<close>

record world =
  fsys :: filesys
  stdout :: "string list"
  stderr :: "string list"

record FilePair =
  enc :: string
  plain :: string
  hidden :: bool

record 'fp Journal =
  RootDir :: string
  Files :: "'fp list"
  encryptedFileExt :: string
  gpgCommand :: string
  gpgReceiver :: string

definition DefaultFileExt :: string where
  "DefaultFileExt = ''.gpg''"

definition printOut :: "string \<Rightarrow> world \<Rightarrow> world" where
  "printOut m w = w\<lparr>stdout := stdout w @ [m]\<rparr>"

definition printErr :: "string \<Rightarrow> world \<Rightarrow> world" where
  "printErr m w = w\<lparr>stderr := stderr w @ [m]\<rparr>"

text \<open>\<open>exec.Command(name, args...).Run()\<close>.\<close>

definition Run :: "sys \<Rightarrow> string \<Rightarrow> string list \<Rightarrow> world \<Rightarrow> world \<times> error option" where
  "Run S name args w =
     (case exec S name args (fsys w) of (fs', out, err) \<Rightarrow> (w\<lparr>fsys := fs'\<rparr>, err))"

definition nonHiddenFilesFilter :: "string \<Rightarrow> FileInfo \<Rightarrow> bool" where
  "nonHiddenFilesFilter p info = HasPrefix (Base p) ''.''"

definition decryptArgs :: "string \<Rightarrow> string \<Rightarrow> string \<Rightarrow> string list" where
  "decryptArgs receiver plainPath encPath =
     [''-d'', ''--batch'', ''--yes'',
      ''-r'' @ [CHR 0x22] @ receiver @ [CHR 0x22],
      ''-o'' @ plainPath,
      encPath]"

definition encryptArgs :: "string \<Rightarrow> string \<Rightarrow> string \<Rightarrow> string list" where
  "encryptArgs receiver plainPath encPath =
     [''-e'', ''--batch'', ''--yes'',
      ''-o'' @ encPath,
      ''-r'' @ [CHR 0x22] @ receiver @ [CHR 0x22],
      plainPath]"

definition executing :: "string \<Rightarrow> string list \<Rightarrow> string" where
  "executing cmd args = ''Executing '' @ cmd @ '' '' @ JoinStrings args '' '' @ [CHR 0x0A]"

definition Decrypt :: "sys \<Rightarrow> 'fp Journal \<Rightarrow> FilePair \<Rightarrow> world \<Rightarrow> world \<times> error option" where
  "Decrypt S j fp w =
     (let args = decryptArgs (gpgReceiver j) (plain fp) (enc fp)
      in Run S (gpgCommand j) args (printOut (executing (gpgCommand j) args) w))"

definition Encrypt :: "sys \<Rightarrow> 'fp Journal \<Rightarrow> FilePair \<Rightarrow> world \<Rightarrow> world \<times> error option" where
  "Encrypt S j fp w =
     (let args = encryptArgs (gpgReceiver j) (plain fp) (enc fp)
      in Run S (gpgCommand j) args (printOut (executing (gpgCommand j) args) w))"

text \<open>The path of the footprint: the base name of the encrypted file behind a dot.\<close>

definition footprint :: "string \<Rightarrow> string" where
  "footprint encPath = Join (Dir encPath) (''.'' @ Base encPath)"

definition LeaveFootprint :: "sys \<Rightarrow> FilePair \<Rightarrow> world \<Rightarrow> world \<times> error option" where
  "LeaveFootprint S fp w = Run S ''mv'' [enc fp, footprint (enc fp)] w"

definition RemoveFootprint :: "sys \<Rightarrow> FilePair \<Rightarrow> world \<Rightarrow> world \<times> error option" where
  "RemoveFootprint S fp w = Run S ''rm'' [footprint (enc fp)] w"

definition Reset :: "sys \<Rightarrow> FilePair \<Rightarrow> world \<Rightarrow> world \<times> error option" where
  "Reset S fp w = Run S ''mv'' [footprint (enc fp), enc fp] w"

text \<open>
  \<open>walkFile\<close> appends a pair for every path with the extension of encrypted files. An
  error of the walk ends the process (\<open>log.Fatal\<close>): the callback records it in the
  second component of its state and stops the walk. The value \<open>raw\<close> that the source
  computes is used nowhere.
\<close>

definition walkFile :: "string \<Rightarrow> FileInfo \<Rightarrow> error option
    \<Rightarrow> FilePair Journal \<times> error option \<Rightarrow> (FilePair Journal \<times> error option) \<times> error option" where
  "walkFile p info err st =
     (case st of (j, fatal) \<Rightarrow>
        (case err of
           Some e \<Rightarrow> ((j, Some e), Some e)
         | None \<Rightarrow>
             if Ext p \<noteq> encryptedFileExt j then ((j, fatal), None)
             else ((j\<lparr>Files := Files j @
                       [\<lparr>enc = p, plain = TrimSuffix p (encryptedFileExt j),
                         hidden = HasPrefix (Base p) ''.''\<rparr>]\<rparr>, fatal), None)))"

definition notInitialised :: string where
  "notInitialised = ''Journal directory is not initialised. Run journal init.'' @ [CHR 0x0A]"

definition NewJournalFromArgs ::
  "sys \<Rightarrow> string list \<Rightarrow> world \<Rightarrow> (error + FilePair Journal) outcome \<times> world" where
  "NewJournalFromArgs S args w =
     (let journal = \<lparr>RootDir = [], Files = [], encryptedFileExt = DefaultFileExt,
                     gpgCommand = ''gpg'', gpgReceiver = []\<rparr>;
          located =
            (case args of
               [] \<Rightarrow> (case getwd S of
                         Inl e \<Rightarrow> Inl (Errorf (''Error determining current directory: '' @ errText e))
                       | Inr d \<Rightarrow> Inr d)
             | a # rest \<Rightarrow> (case absPath S a of
                         Inl e \<Rightarrow> Inl (Errorf (''Error: '' @ a @ '' is not a valid path: '' @ errText e))
                       | Inr d \<Rightarrow> Inr d))
      in case located of
           Inl e \<Rightarrow> (Returns (Inl e), w)
         | Inr d \<Rightarrow>
             (let journal = journal\<lparr>RootDir := d\<rparr>;
                  got = ReadFile (fsys w) (Join (RootDir journal) ''.gpgid'')
              in if (case got of Inl e \<Rightarrow> IsNotExist e | Inr b \<Rightarrow> False)
                 then (Exits 0, printOut notInitialised w)
                 else
                   (let gpgid = (case got of Inl e \<Rightarrow> [] | Inr b \<Rightarrow> b);
                        journal = journal\<lparr>gpgReceiver := TrimSpace gpgid\<rparr>
                    in case Walk (walk S (fsys w) (RootDir journal)) walkFile (journal, None) of
                         ((journal, Some fatal), err) \<Rightarrow> (Exits 1, printErr (errText fatal) w)
                       | ((journal, None), Some e) \<Rightarrow> (Returns (Inl e), w)
                       | ((journal, None), None) \<Rightarrow> (Returns (Inr journal), w))))"

text \<open>
  \<open>os.Create\<close> creates the file or truncates it. The file that it opens is written
  through a \<open>bufio.Writer\<close>: \<open>buffered\<close> holds the bytes not yet written to the file
  at \<open>target\<close>, and \<open>werr\<close> the error that the writer keeps once a write has failed.
  \<open>WriteString\<close> is the loop of the library that fills the buffer and flushes it when
  it is full.
\<close>

definition Create :: "filesys \<Rightarrow> string \<Rightarrow> error + filesys" where
  "Create fs p = (case fs p of
       Some Directory \<Rightarrow> Inl (PathError ''open'' p EISDIR)
     | Some (Faulty e) \<Rightarrow> Inl e
     | Some (File b) \<Rightarrow> Inr (fs(p \<mapsto> File []))
     | None \<Rightarrow> Inr (fs(p \<mapsto> File [])))"

definition fileWrite :: "filesys \<Rightarrow> string \<Rightarrow> bytes \<Rightarrow> filesys \<times> error option" where
  "fileWrite fs p d = (case fs p of
       Some (File b) \<Rightarrow> (fs(p \<mapsto> File (b @ d)), None)
     | Some Directory \<Rightarrow> (fs, Some (PathError ''write'' p EISDIR))
     | Some (Faulty e) \<Rightarrow> (fs, Some e)
     | None \<Rightarrow> (fs, Some (PathError ''write'' p ENOENT)))"

record BufWriter =
  target :: string
  buffered :: bytes
  werr :: "error option"

definition NewWriter :: "string \<Rightarrow> BufWriter" where
  "NewWriter p = \<lparr>target = p, buffered = [], werr = None\<rparr>"

definition Flush :: "world \<times> BufWriter \<Rightarrow> (world \<times> BufWriter) \<times> error option" where
  "Flush wb =
     (case wb of (w, b) \<Rightarrow>
        (case werr b of
           Some e \<Rightarrow> ((w, b), Some e)
         | None \<Rightarrow>
             if buffered b = [] then ((w, b), None)
             else (case fileWrite (fsys w) (target b) (buffered b) of
                     (fs', Some e) \<Rightarrow> ((w\<lparr>fsys := fs'\<rparr>, b\<lparr>werr := Some e\<rparr>), Some e)
                   | (fs', None) \<Rightarrow> ((w\<lparr>fsys := fs'\<rparr>, b\<lparr>buffered := []\<rparr>), None))))"

function WriteString :: "world \<times> BufWriter \<Rightarrow> string \<Rightarrow> (world \<times> BufWriter) \<times> error option" where
  "WriteString wb s =
     (case wb of (w, b) \<Rightarrow>
        if length s > bufSize - length (buffered b) \<and> werr b = None then
          (let n = bufSize - length (buffered b)
           in WriteString (fst (Flush (w, b\<lparr>buffered := buffered b @ take n s\<rparr>))) (drop n s))
        else (case werr b of
                Some e \<Rightarrow> ((w, b), Some e)
              | None \<Rightarrow> ((w, b\<lparr>buffered := buffered b @ s\<rparr>), None)))"
  by pat_completeness auto
termination
proof (relation "measures [\<lambda>(wb, s). if werr (snd wb) = None then 1 else 0,
                           \<lambda>(wb, s). length s,
                           \<lambda>(wb, s). length (buffered (snd wb))]", goal_cases)
  case 1
  show ?case by simp
next
  case (2 wb s w b n)
  have "0 < bufSize"
    by (simp add: bufSize_def)
  with 2 show ?case
    by (auto simp: Flush_def split: option.splits prod.splits if_splits)
qed

text \<open>\<open>Unlock\<close>: the loop over the pairs, then the scan, then the checklist file.\<close>

fun unlockFiles :: "sys \<Rightarrow> FilePair Journal \<Rightarrow> FilePair list \<Rightarrow> world \<Rightarrow> world \<times> error option" where
  "unlockFiles S j [] w = (w, None)"
| "unlockFiles S j (f # rest) w =
     (case Decrypt S j f w of
        (w1, Some e) \<Rightarrow>
          (w1, Some (Errorf (''Error decrypting file '' @ enc f @ '': '' @ errText e)))
      | (w1, None) \<Rightarrow>
          (case LeaveFootprint S f w1 of
             (w2, Some e) \<Rightarrow>
               (w2, Some (Errorf (''Error creating file footprint '' @ enc f @ '': '' @ errText e)))
           | (w2, None) \<Rightarrow> unlockFiles S j rest w2))"

definition checkPath :: "'fp Journal \<Rightarrow> string" where
  "checkPath j = Join (RootDir j) ''.check''"

definition Unlock :: "sys \<Rightarrow> FilePair Journal \<Rightarrow> world \<Rightarrow> world \<times> error option" where
  "Unlock S j w =
     (case unlockFiles S j (Files j) w of
        (w1, Some e) \<Rightarrow> (w1, Some e)
      | (w1, None) \<Rightarrow>
          (case ChecklistFromDir S (fsys w1) (RootDir j) nonHiddenFilesFilter of
             Inl e \<Rightarrow> (w1, Some (Errorf (''Error reading checklist from dir: '' @ errText e)))
           | Inr checklist \<Rightarrow>
               (case Create (fsys w1) (checkPath j) of
                  Inl e \<Rightarrow> (w1, Some (Errorf (''Error creating checklist file: '' @ errText e)))
                | Inr fs2 \<Rightarrow>
                    (case Write WriteString checklist (w1\<lparr>fsys := fs2\<rparr>, NewWriter (checkPath j)) of
                       (wb, Some e) \<Rightarrow>
                         (fst wb, Some (Errorf (''Error writing checklist file: '' @ errText e)))
                     | (wb, None) \<Rightarrow> (fst (fst (Flush wb)), None)))))"

text \<open>
  \<open>Lock\<close>. The source calls \<open>hasChanged(file)\<close> with the pair itself, where the function
  takes a path; \<open>key\<close> is the path of the pair that this call compares, which the
  source does not settle. The result of \<open>Reset\<close> is dropped, as in the source.
\<close>

fun hasChanged :: "string list \<Rightarrow> string \<Rightarrow> bool" where
  "hasChanged [] p = False"
| "hasChanged (c # cs) p = (if p = c then True else hasChanged cs p)"

fun lockFiles :: "sys \<Rightarrow> (FilePair \<Rightarrow> string) \<Rightarrow> FilePair Journal \<Rightarrow> string list \<Rightarrow> FilePair list
                   \<Rightarrow> world \<Rightarrow> world \<times> error option" where
  "lockFiles S key j changes [] w = (w, None)"
| "lockFiles S key j changes (file # rest) w =
     (if \<not> hasChanged changes (key file)
      then lockFiles S key j changes rest (fst (Reset S file w))
      else (case Encrypt S j file w of
              (w1, Some e) \<Rightarrow> (w1, Some e)
            | (w1, None) \<Rightarrow>
                (case RemoveFootprint S file w1 of
                   (w2, Some e) \<Rightarrow> (w2, Some e)
                 | (w2, None) \<Rightarrow> lockFiles S key j changes rest w2)))"


section \<open>The journal, pipelined revision\<close>







section \<open>Commands for the examples\<close>

text \<open>
  An \<open>exec\<close> for the examples: \<open>mv\<close> and \<open>rm\<close> on regular files, \<open>gpg\<close> with the
  arguments the program gives it, deciphering by \<open>dec\<close> and enciphering by \<open>encr\<close> into
  the file named after \<open>-o\<close>, and the digest command printing the digest and the path.
  A command that fails leaves the files as they are.
\<close>

definition fails :: "filesys \<Rightarrow> filesys \<times> bytes \<times> error option" where
  "fails fs = (fs, [], Some (ExecError ''exit status 1''))"

definition toolExec :: "(bytes \<Rightarrow> string) \<Rightarrow> (bytes \<Rightarrow> bytes option) \<Rightarrow> (bytes \<Rightarrow> bytes option)
    \<Rightarrow> string \<Rightarrow> string list \<Rightarrow> filesys \<Rightarrow> filesys \<times> bytes \<times> error option" where
  "toolExec h dec encr name args fs =
     (if name = ''mv'' then
        (case args of
           [a, b] \<Rightarrow>
             (case fs a of
                Some (File c) \<Rightarrow> if a = b then fails fs else (fs(a := None, b \<mapsto> File c), [], None)
              | _ \<Rightarrow> fails fs)
         | _ \<Rightarrow> fails fs)
      else if name = ''rm'' then
        (case args of
           [a] \<Rightarrow> (case fs a of Some (File c) \<Rightarrow> (fs(a := None), [], None) | _ \<Rightarrow> fails fs)
         | _ \<Rightarrow> fails fs)
      else if name = ''gpg'' then
        (case args of
           [mode, a2, a3, a4, a5, a6] \<Rightarrow>
             (case fs a6 of
                Some (File c) \<Rightarrow>
                  if mode = ''-d'' then
                    (case dec c of
                       Some t \<Rightarrow> (fs(drop 2 a5 \<mapsto> File t), [], None)
                     | None \<Rightarrow> fails fs)
                  else if mode = ''-e'' then
                    (case encr c of
                       Some t \<Rightarrow> (fs(drop 2 a4 \<mapsto> File t), [], None)
                     | None \<Rightarrow> fails fs)
                  else fails fs
              | _ \<Rightarrow> fails fs)
         | _ \<Rightarrow> fails fs)
      else if name = ''md5'' then
        (case args of
           [a1, a] \<Rightarrow>
             (case fs a of
                Some (File c) \<Rightarrow> (fs, h c @ '' '' @ a @ [CHR 0x0A], None)
              | _ \<Rightarrow> fails fs)
         | _ \<Rightarrow> fails fs)
      else fails fs)"

text \<open>The cipher of the examples: a ciphertext is the plaintext behind the mark \<open>gpg:\<close>.\<close>

definition demoDec :: "bytes \<Rightarrow> bytes option" where
  "demoDec c = (if HasPrefix c ''gpg:'' then Some (drop 4 c) else None)"

definition demoEnc :: "bytes \<Rightarrow> bytes option" where
  "demoEnc t = Some (''gpg:'' @ t)"

text \<open>
  The digests of the contents that the examples use, the walk of the examples (the
  paths of a list that exist, in the order of the list, which is the lexical order of
  \<open>filepath.Walk\<close>), and the surroundings made of them.
\<close>

definition md5Table :: "bytes \<Rightarrow> string" where
  "md5Table b =
     (if b = ''a'' then ''0cc175b9c0f1b6a831c399e269772661''
      else if b = ''b'' then ''92eb5ffee6ae2fec3ad71c777531578f''
      else if b = ''c'' then ''4a8a08f09d37b73795649038408b5f33''
      else if b = ''gpg:a'' then ''dc9651a477b5b4ee04b7d24e1654c03c''
      else if b = ''gpg:b'' then ''6cd84c82979a79bb61d9206007f64df7''
      else if b = ''gpg:c'' then ''af44c015feab429cadcbd8be63e8a43e''
      else if b = ''me@example.org'' @ [CHR 0x0A] then ''6d6b7c899fb9c8fd2bf4618c1955af6c''
      else if b = ''old'' then ''149603e6c03516362a8da23f624db945''
      else if b = ''garbage'' then ''c8e8df895c2cae166bad027fdf15335b''
      else [])"

definition listWalk :: "string list \<Rightarrow> filesys \<Rightarrow> string \<Rightarrow> visit list" where
  "listWalk ps fs root =
     map (\<lambda>p. (p, \<lparr>IsDir = (fs p = Some Directory)\<rparr>, None)) (filter (\<lambda>p. fs p \<noteq> None) ps)"

definition jPaths :: "string list" where
  "jPaths = [''/j'', ''/j/.a.gpg'', ''/j/.b.gpg'', ''/j/.check'', ''/j/.gpgid'',
             ''/j/a'', ''/j/a.gpg'', ''/j/b'', ''/j/b.gpg'']"

definition demoSys :: sys where
  "demoSys = \<lparr>md5hex = md5Table, walk = listWalk jPaths,
              exec = toolExec md5Table demoDec demoEnc,
              getwd = Inr ''/j'',
              absPath = (\<lambda>a. Inr (if HasPrefix a ''/'' then Clean a else Join ''/j'' a))\<rparr>"

definition emptyWorld :: "filesys \<Rightarrow> world" where
  "emptyWorld fs = \<lparr>fsys = fs, stdout = [], stderr = []\<rparr>"

text \<open>A store of two files, with the digests of the contents \<open>a\<close> and \<open>b\<close>.\<close>

definition storeAB :: Checklist where
  "storeAB = \<lparr>files = [\<lparr>path = ''/j/a'', hash = ''0cc175b9c0f1b6a831c399e269772661''\<rparr>,
                        \<lparr>path = ''/j/b'', hash = ''92eb5ffee6ae2fec3ad71c777531578f''\<rparr>]\<rparr>"

definition checkAB :: bytes where
  "checkAB = ''0cc175b9c0f1b6a831c399e269772661 /j/a'' @ [CHR 0x0A]
             @ ''92eb5ffee6ae2fec3ad71c777531578f /j/b'' @ [CHR 0x0A]"

text \<open>
  The journal \<open>/j\<close> of two documents in four states: locked, with an older checklist
  and a second ciphertext that does not decipher (\<open>lockedFs\<close>); unlocked, one document
  (\<open>unlockedFs\<close>); unlocked with the checklist of \<open>storeAB\<close> and the second plaintext
  edited from \<open>b\<close> to \<open>c\<close> (\<open>editedFs\<close>); and locked with a recipient file whose read
  fails (\<open>faultyFs\<close>).
\<close>

definition gpgidAB :: bytes where
  "gpgidAB = ''me@example.org'' @ [CHR 0x0A]"

definition lockedFs :: filesys where
  "lockedFs = [''/j'' \<mapsto> Directory, ''/j/a.gpg'' \<mapsto> File ''gpg:a'',
               ''/j/b.gpg'' \<mapsto> File ''garbage'', ''/j/.check'' \<mapsto> File ''old'',
               ''/j/.gpgid'' \<mapsto> File gpgidAB]"

definition unlockedFs :: filesys where
  "unlockedFs = [''/j'' \<mapsto> Directory, ''/j/.a.gpg'' \<mapsto> File ''gpg:a'',
                 ''/j/.gpgid'' \<mapsto> File gpgidAB, ''/j/a'' \<mapsto> File ''a'']"

definition editedFs :: filesys where
  "editedFs = [''/j'' \<mapsto> Directory, ''/j/.a.gpg'' \<mapsto> File ''gpg:a'',
               ''/j/.b.gpg'' \<mapsto> File ''gpg:b'', ''/j/.check'' \<mapsto> File checkAB,
               ''/j/.gpgid'' \<mapsto> File gpgidAB, ''/j/a'' \<mapsto> File ''a'', ''/j/b'' \<mapsto> File ''c'']"

definition faultyFs :: filesys where
  "faultyFs = [''/j'' \<mapsto> Directory, ''/j/a.gpg'' \<mapsto> File ''gpg:a'',
               ''/j/.gpgid'' \<mapsto> Faulty (PathError ''read'' ''/j/.gpgid'' EIO)]"

definition jAB :: "FilePair Journal" where
  "jAB = \<lparr>RootDir = ''/j'',
          Files = [\<lparr>enc = ''/j/a.gpg'', plain = ''/j/a'', hidden = False\<rparr>,
                   \<lparr>enc = ''/j/b.gpg'', plain = ''/j/b'', hidden = False\<rparr>],
          encryptedFileExt = ''.gpg'', gpgCommand = ''gpg'', gpgReceiver = ''me@example.org''\<rparr>"


section \<open>Auxiliary facts\<close>

lemma DiffLoop_receiver: "fst (DiffLoop S fs fl (c, out)) = c"
  by (induction fl arbitrary: out) (auto split: sum.splits)

lemma DiffLoop_readable:
  "\<forall>f\<in>set fl. readable fs (path f) \<Longrightarrow>
   snd (DiffLoop S fs fl (c, out)) = (out @ map path (filter (changed S fs) fl), None)"
  by (induction fl arbitrary: out) (auto simp: readable_def changed_def split: sum.splits)

lemma DiffLoop_unreadable:
  "\<not> (\<forall>f\<in>set fl. readable fs (path f)) \<Longrightarrow>
   \<exists>e. snd (DiffLoop S fs fl (c, out)) = ([], Some e)
       \<and> (\<exists>f\<in>set fl. ReadFile fs (path f) = Inl e)"
  by (induction fl arbitrary: out) (auto simp: readable_def split: sum.splits)

text \<open>The loop of \<open>ChecklistFromReader\<close> ends by a panic or by its one return.\<close>

lemma readLoop_shape: "readLoop c r = Panics \<or> (\<exists>c' e. readLoop c r = Returns (c', e))"
proof (induction c r rule: readLoop.induct)
  case (1 c r)
  show ?case
    apply (subst readLoop.simps)
    apply (subst (2) readLoop.simps)
    using 1 apply (auto split: prod.splits option.splits simp: Let_def)
    done
qed

lemma ChecklistFromReader_cases:
  "ChecklistFromReader r = Panics \<or> (\<exists>e. ChecklistFromReader r = Returns (Inl e))"
  using readLoop_shape [of "\<lparr>files = []\<rparr>" r] by (auto simp: ChecklistFromReader_def)

lemma ChecklistFromReader_gives_no_store: "ChecklistFromReader r \<noteq> Returns (Inr c)"
  using ChecklistFromReader_cases [of r] by auto

text \<open>A first line without a space, shorter than the buffer, makes the reader panic.\<close>

lemma Split_without_separator: "sep \<notin> set s \<Longrightarrow> Split s sep = [s]"
  by (induction s) auto

lemma ReadLine_first_line:
  assumes "CHR 0x0A \<notin> set l" and "length l < bufSize"
  shows "\<exists>l' r'. ReadLine \<lparr>pending = l @ CHR 0x0A # rest, final = e\<rparr> = ((l', False, None), r')
                \<and> set l' \<subseteq> set l"
proof -
  have tw: "takeWhile (\<lambda>c. c \<noteq> CHR 0x0A) (l @ CHR 0x0A # rest) = l"
    using assms(1) by (induction l) auto
  have sub: "set (take n (l @ [CHR 0x0A])) \<subseteq> set l" if "n \<le> length l" for n
    using that by (auto dest: in_set_takeD)
  show ?thesis
    using assms(2) sub [of "length l"] sub [of "length l - 1"]
    by (auto simp: ReadLine_def ReadSlice_def Let_def tw)
qed

lemma ChecklistFromReader_first_line_without_space:
  assumes "CHR '' '' \<notin> set l" and "CHR 0x0A \<notin> set l" and "length l < bufSize"
  shows "ChecklistFromReader \<lparr>pending = l @ CHR 0x0A # rest, final = e\<rparr> = Panics"
proof -
  obtain l' r'
    where rl: "ReadLine \<lparr>pending = l @ CHR 0x0A # rest, final = e\<rparr> = ((l', False, None), r')"
      and sub: "set l' \<subseteq> set l"
    using ReadLine_first_line [OF assms(2,3)] by blast
  from sub assms(1) have "Split l' (CHR '' '') = [l']"
    by (intro Split_without_separator) auto
  with rl show ?thesis
    by (simp add: ChecklistFromReader_def)
qed

text \<open>The scan with \<open>nonHiddenFilesFilter\<close> collects the paths whose base name starts with a dot.\<close>

lemma Walk_filter_paths:
  "Walk vs (\<lambda>p info err c. case err of Some e \<Rightarrow> (c, Some e)
              | None \<Rightarrow> if \<not> nonHiddenFilesFilter p info then (c, None)
                        else Collect_path S fs c p) c0
     = (c, None)
   \<Longrightarrow> map path (files c)
       = map path (files c0) @ filter (\<lambda>p. HasPrefix (Base p) ''.'') (map fst vs)"
proof (induction vs arbitrary: c0)
  case Nil
  then show ?case by simp
next
  case (Cons v vs)
  obtain p info err where v: "v = (p, info, err)" by (cases v)
  from Cons.prems v show ?case
    by (auto simp: nonHiddenFilesFilter_def Collect_path_def AddFile_def
             split: option.splits if_splits sum.splits prod.splits dest!: Cons.IH)
qed

lemma ChecklistFromDir_paths:
  "ChecklistFromDir S fs dir nonHiddenFilesFilter = Inr c \<Longrightarrow>
   map path (files c) = filter (\<lambda>p. HasPrefix (Base p) ''.'') (map fst (walk S fs dir))"
  by (auto simp: ChecklistFromDir_def split: prod.splits option.splits dest!: Walk_filter_paths)

text \<open>A recipient file that does not exist ends the process with status 0 and the message.\<close>

lemma NewJournalFromArgs_not_initialised:
  "absPath S a = Inr d \<Longrightarrow> ReadFile (fsys w) (Join d ''.gpgid'') = Inl e \<Longrightarrow> IsNotExist e \<Longrightarrow>
   NewJournalFromArgs S (a # rest) w = (Exits 0, printOut notInitialised w)"
  by (simp add: NewJournalFromArgs_def)




text \<open>
  The loop of \<open>Lock\<close>, run on the edited journal with the changed set that \<open>Diff\<close> gives
  for \<open>storeAB\<close> and with the plaintext path as the key: it ends without an error, the
  two encrypted files are visible and the footprints are gone, and both plaintexts are
  still there. No statement of the loop removes a plaintext.
\<close>

lemma lockFiles_leaves_plaintext:
  "snd (lockFiles demoSys plain jAB [''/j/b''] (Files jAB) (emptyWorld editedFs)) = None
   \<and> map (fsys (fst (lockFiles demoSys plain jAB [''/j/b''] (Files jAB) (emptyWorld editedFs))))
        [''/j/a'', ''/j/b'', ''/j/a.gpg'', ''/j/b.gpg'', ''/j/.a.gpg'', ''/j/.b.gpg'']
     = [Some (File ''a''), Some (File ''c''), Some (File ''gpg:a''), Some (File ''gpg:c''),
        None, None]"
  by code_simp

text \<open>
  A pair whose plaintext path is the checklist path: the decryption itself writes the
  checklist path, before a later pair fails.
\<close>

lemma Unlock_decrypts_onto_checklist:
  "fsys (fst (Unlock demoSys
      (jAB\<lparr>Files := [\<lparr>enc = ''/j/.check.gpg'', plain = ''/j/.check'', hidden = True\<rparr>,
                     \<lparr>enc = ''/j/b.gpg'', plain = ''/j/b'', hidden = False\<rparr>]\<rparr>)
      (emptyWorld (lockedFs(''/j/.check.gpg'' \<mapsto> File ''gpg:c''))))) ''/j/.check''
     = Some (File ''c'')
   \<and> snd (Unlock demoSys
      (jAB\<lparr>Files := [\<lparr>enc = ''/j/.check.gpg'', plain = ''/j/.check'', hidden = True\<rparr>,
                     \<lparr>enc = ''/j/b.gpg'', plain = ''/j/b'', hidden = False\<rparr>]\<rparr>)
      (emptyWorld (lockedFs(''/j/.check.gpg'' \<mapsto> File ''gpg:c''))))
     = Some (Errorf ''Error decrypting file /j/b.gpg: exit status 1'')"
  by code_simp

section \<open>The claims\<close>

text \<open>
  C1. Round trip: for every store, \<open>Write\<close> followed by \<open>ChecklistFromReader\<close> succeeds
  and gives back the entries in their order. On the store of two files the code does
  otherwise: \<open>Write\<close> puts nothing between the records, \<open>ChecklistFromReader\<close> returns no
  store and the error \<open>EOF\<close>, and the checklist that its loop had built holds one entry
  whose path runs into the second hash.
\<close>

theorem Write_then_read_loses_store:
  "fst (Write bufferWriteString storeAB []) =
     ''0cc175b9c0f1b6a831c399e269772661 /j/a92eb5ffee6ae2fec3ad71c777531578f /j/b''
   \<and> ChecklistFromReader \<lparr>pending = fst (Write bufferWriteString storeAB []), final = EOF\<rparr>
       = Returns (Inl EOF)
   \<and> readLoop \<lparr>files = []\<rparr> \<lparr>pending = fst (Write bufferWriteString storeAB []), final = EOF\<rparr>
       = Returns (\<lparr>files = [\<lparr>path = ''/j/a92eb5ffee6ae2fec3ad71c777531578f'',
                              hash = ''0cc175b9c0f1b6a831c399e269772661''\<rparr>]\<rparr>, EOF)"
  by (simp add: Write_def bufferWriteString_def storeAB_def ChecklistFromReader_def
        ReadLine_def ReadSlice_def bufSize_def AddFile_def)


text \<open>
  C3. \<open>Diff\<close> returns the stored paths whose content, read again, has a digest other than
  the stored one, in the order of the store, when every stored file can be read; when
  some stored file cannot be read it returns no path and the error of reading a stored
  file.
\<close>

theorem Diff_reports_changed_paths:
  "(if \<forall>f\<in>set (files c). readable fs (path f)
    then snd (Diff S fs c) = (map path (filter (changed S fs) (files c)), None)
    else \<exists>e. snd (Diff S fs c) = ([], Some e)
             \<and> (\<exists>f\<in>set (files c). ReadFile fs (path f) = Inl e))"
  using DiffLoop_readable [of "files c" fs S c "[]"] DiffLoop_unreadable [of "files c" fs S c "[]"]
  by (simp add: Diff_def)

text \<open>
  The theorem on \<open>storeAB\<close>: with the second file edited, \<open>Diff\<close> reports the second path
  alone; with the first file removed, it returns the error of opening it.
\<close>

theorem Diff_reports_changed_paths_witness:
  "snd (Diff demoSys [''/j/a'' \<mapsto> File ''a'', ''/j/b'' \<mapsto> File ''c''] storeAB)
     = ([''/j/b''], None)
   \<and> snd (Diff demoSys [''/j/b'' \<mapsto> File ''c''] storeAB)
     = ([], Some (PathError ''open'' ''/j/a'' ENOENT))"
proof -
  let ?fs = "[''/j/a'' \<mapsto> File ''a'', ''/j/b'' \<mapsto> File ''c''] :: filesys"
  let ?gs = "[''/j/b'' \<mapsto> File ''c''] :: filesys"
  have r: "\<forall>f\<in>set (files storeAB). readable ?fs (path f)"
    by (simp add: storeAB_def readable_def ReadFile_def Open_def)
  have n: "\<not> (\<forall>f\<in>set (files storeAB). readable ?gs (path f))"
    by (simp add: storeAB_def readable_def ReadFile_def Open_def)
  have c: "map path (filter (changed demoSys ?fs) (files storeAB)) = [''/j/b'']"
    by (simp add: storeAB_def changed_def ReadFile_def Open_def demoSys_def md5Table_def)
  have e: "e = PathError ''open'' ''/j/a'' ENOENT"
    if "ReadFile ?gs (path f) = Inl e" "f \<in> set (files storeAB)" for f e
    using that by (auto simp add: storeAB_def ReadFile_def Open_def)
  have i1: "snd (Diff demoSys ?fs storeAB)
              = (map path (filter (changed demoSys ?fs) (files storeAB)), None)"
    using Diff_reports_changed_paths [of storeAB ?fs demoSys] r by argo
  have i2: "\<exists>e. snd (Diff demoSys ?gs storeAB) = ([], Some e)
             \<and> (\<exists>f\<in>set (files storeAB). ReadFile ?gs (path f) = Inl e)"
    using Diff_reports_changed_paths [of storeAB ?gs demoSys] n by argo
  from i2 e have i3: "snd (Diff demoSys ?gs storeAB)
                        = ([], Some (PathError ''open'' ''/j/a'' ENOENT))"
    by blast
  from i1 c have i1': "snd (Diff demoSys ?fs storeAB) = ([''/j/b''], None)"
    by (simp only:)
  from i1' i3 show ?thesis
    by blast
qed





text \<open>
  C6. On a stream of well-formed records the end of the stream ends the parsing
  normally and the store is returned; the end of the stream is not a failure and differs
  from a read error. On the two records of \<open>storeAB\<close>, one per line, the code returns
  the error \<open>EOF\<close> and no store, although its loop had built \<open>storeAB\<close>; a stream that
  ends by a read error gives the same shape of result.
\<close>

theorem ChecklistFromReader_end_of_stream:
  "ChecklistFromReader \<lparr>pending = checkAB, final = EOF\<rparr> = Returns (Inl EOF)
   \<and> readLoop \<lparr>files = []\<rparr> \<lparr>pending = checkAB, final = EOF\<rparr> = Returns (storeAB, EOF)
   \<and> ChecklistFromReader \<lparr>pending = checkAB, final = PathError ''read'' ''/j/.check'' EIO\<rparr>
     = Returns (Inl (PathError ''read'' ''/j/.check'' EIO))"
  by (simp add: storeAB_def checkAB_def ChecklistFromReader_def
        ReadLine_def ReadSlice_def bufSize_def AddFile_def)

text \<open>
  C7. A stream with a malformed line makes \<open>ChecklistFromReader\<close> fail with a parse
  error, without a crash and without a store. In the code a line without a space panics
  at \<open>arr[1]\<close>: so does a hash alone on its line, and so does an empty line after a
  well-formed record.
\<close>

theorem ChecklistFromReader_line_without_space:
  "ChecklistFromReader
     \<lparr>pending = ''0cc175b9c0f1b6a831c399e269772661'' @ [CHR 0x0A], final = EOF\<rparr> = Panics
   \<and> ChecklistFromReader
     \<lparr>pending = ''0cc175b9c0f1b6a831c399e269772661 /j/a'' @ [CHR 0x0A, CHR 0x0A], final = EOF\<rparr>
     = Panics"
  by (simp add: ChecklistFromReader_def ReadLine_def ReadSlice_def bufSize_def AddFile_def)

text \<open>
  C8. The scan that ends \<open>Unlock\<close> fingerprints a path if and only if its base name does
  not start with the hidden-file marker. On the unlocked journal, whose walk visits the
  root, the footprint, the recipient file and the plaintext, the scan of the code
  fingerprints the footprint and the recipient file, and not the plaintext \<open>/j/a\<close>.
\<close>

theorem ChecklistFromDir_scans_hidden_files:
  "ChecklistFromDir demoSys unlockedFs ''/j'' nonHiddenFilesFilter
     = Inr \<lparr>files = [\<lparr>path = ''/j/.a.gpg'', hash = ''dc9651a477b5b4ee04b7d24e1654c03c''\<rparr>,
                      \<lparr>path = ''/j/.gpgid'', hash = ''6d6b7c899fb9c8fd2bf4618c1955af6c''\<rparr>]\<rparr>
   \<and> unlockedFs ''/j/a'' = Some (File ''a'')
   \<and> map fst (walk demoSys unlockedFs ''/j'') = [''/j'', ''/j/.a.gpg'', ''/j/.gpgid'', ''/j/a'']"
  by code_simp

text \<open>
  C9. Without the recipient file the operation ends cleanly with the message and
  status 0, and a failure of reading that file is told apart from it and is not taken
  silently for an initialised or an uninitialised journal. In the code, a recipient file
  whose read fails with an input/output error gives a journal with the empty recipient
  and no message and no error; the missing file gives the message and status 0.
\<close>

theorem NewJournalFromArgs_read_failure:
  "NewJournalFromArgs demoSys [''/j''] (emptyWorld faultyFs)
     = (Returns (Inr \<lparr>RootDir = ''/j'',
                      Files = [\<lparr>enc = ''/j/a.gpg'', plain = ''/j/a'', hidden = False\<rparr>],
                      encryptedFileExt = ''.gpg'', gpgCommand = ''gpg'', gpgReceiver = []\<rparr>),
        emptyWorld faultyFs)
   \<and> ReadFile faultyFs ''/j/.gpgid'' = Inl (PathError ''read'' ''/j/.gpgid'' EIO)
   \<and> NewJournalFromArgs demoSys [''/j''] (emptyWorld (faultyFs(''/j/.gpgid'' := None)))
     = (Exits 0, printOut notInitialised (emptyWorld (faultyFs(''/j/.gpgid'' := None))))"
  by (simp add: NewJournalFromArgs_def demoSys_def emptyWorld_def faultyFs_def HasPrefix_def
       Clean_def Join_def atElemEnd_def ReadFile_def Open_def IsNotExist_def TrimSpace_def
       listWalk_def jPaths_def walkFile_def Ext_def lastElem_def DefaultFileExt_def TrimSuffix_def
       HasSuffix_def Base_def printOut_def)

text \<open>
  C10. \<open>Diff\<close> leaves the store as it is, whether it succeeds or fails: the receiver after
  the call is the receiver before it, and \<open>Write\<close> after \<open>Diff\<close> writes what it would
  have written before.
\<close>

theorem Diff_keeps_store:
  "fst (Diff S fs c) = c \<and> Write ws (fst (Diff S fs c)) w = Write ws c w"
  by (simp add: Diff_def DiffLoop_receiver)

end
